theory Spec2Isabelle
  imports Complex_Main "HOL-Library.Word" "HOL-Library.Sublist"
begin

section \<open>Data model\<close>

text \<open>
  A JavaScript string is a sequence of UTF-16 code units; \<open>includes\<close>, \<open>trim\<close> and
  the truthiness test all work on code units, so that is what a string is here.
  \<open>ascii\<close> writes a string literal of the source.
\<close>

type_synonym js_string = "16 word list"

definition ascii :: "string \<Rightarrow> js_string" where
  "ascii cs = map of_char cs"

text \<open>\<open>types.ts\<close>: \<open>role: 'user' | 'mehu'\<close> and the \<open>Message\<close> interface
  (fields \<open>id\<close>, \<open>role\<close>, \<open>text\<close>, \<open>timestamp\<close>). A \<open>Date\<close> is its number of milliseconds.\<close>

datatype role = User | Mehu

record message =
  msg_id :: js_string
  msg_role :: role
  msg_text :: js_string
  msg_timestamp :: int

text \<open>\<open>useState<'idle' | 'listening' | 'speaking'>\<close>.\<close>

datatype status = Idle | Listening | Speaking

text \<open>
  What one call of \<open>addMessage\<close> reads from the outside: the value of
  \<open>Math.random().toString()\<close> and the value of \<open>new Date()\<close>.
\<close>

record stamp =
  randomId :: js_string
  now :: int

section \<open>The transcript: \<open>addMessage\<close>\<close>

text \<open>\<open>text.includes(pat)\<close>: \<open>pat\<close> occurs in \<open>text\<close> as a contiguous run of code units.\<close>

fun str_includes :: "'a list \<Rightarrow> 'a list \<Rightarrow> bool" where
  "str_includes [] pat = (pat = [])"
| "str_includes (c # cs) pat = (prefix pat (c # cs) \<or> str_includes cs pat)"

text \<open>
  The test of line 176, \<open>lastMsg && lastMsg.role === role && text.includes(lastMsg.text)\<close>,
  where \<open>lastMsg = prev[prev.length - 1]\<close> is \<open>undefined\<close> on the empty transcript.
\<close>

definition coalesces :: "message list \<Rightarrow> role \<Rightarrow> js_string \<Rightarrow> bool" where
  "coalesces prev r tx =
     (prev \<noteq> [] \<and> msg_role (last prev) = r \<and> str_includes tx (msg_text (last prev)))"

text \<open>The updater that \<open>addMessage\<close> hands to \<open>setMessages\<close> (lines 174 to 180).\<close>

definition addMessage :: "stamp \<Rightarrow> role \<Rightarrow> js_string \<Rightarrow> message list \<Rightarrow> message list" where
  "addMessage st r tx prev =
     (if coalesces prev r tx
      then butlast prev @ [(last prev)\<lparr>msg_text := tx, msg_timestamp := now st\<rparr>]
      else prev @ [\<lparr>msg_id = randomId st, msg_role = r, msg_text = tx, msg_timestamp = now st\<rparr>])"

text \<open>A run of partial transcriptions for one speaker, applied in order of arrival.\<close>

fun addMessages :: "role \<Rightarrow> (stamp \<times> js_string) list \<Rightarrow> message list \<Rightarrow> message list" where
  "addMessages r [] prev = prev"
| "addMessages r ((st, tx) # evs) prev = addMessages r evs (addMessage st r tx prev)"

text \<open>Each text of the run contains the text before it.\<close>

fun growing :: "'a list list \<Rightarrow> bool" where
  "growing [] = True"
| "growing [t] = True"
| "growing (t # u # ts) = (str_includes u t \<and> growing (u # ts))"

section \<open>The session controller\<close>

text \<open>
  The component's state (lines 35 to 45): the \<open>useState\<close> cells and the \<open>useRef\<close>
  cells the handlers write. A session, an audio context and a buffer source node are
  objects of the browser or of the provider's client; each is named by a number. What a
  handler does to them is recorded, in order, in \<open>effects\<close>. Numbers of JavaScript are
  real numbers here: rounding is not modelled.
\<close>

datatype effect =
    PreventDefault
  | SessionClose nat
  | AudioContextClose nat
  | SessionSend nat js_string
  | GenerateContent js_string
  | SourceStart nat real
  | SourceStop nat

record app =
  isLive :: bool
  messages :: "message list"
  inputText :: js_string
  mehuStatus :: status
  audioContextRef :: "nat option"
  sessionRef :: "nat option"
  nextStartTimeRef :: real
  sourcesRef :: "nat list"
  effects :: "effect list"

text \<open>The initial values of the hooks.\<close>

definition init :: app where
  "init = \<lparr>isLive = False, messages = [], inputText = [], mehuStatus = Idle,
           audioContextRef = None, sessionRef = None, nextStartTimeRef = 0,
           sourcesRef = [], effects = []\<rparr>"

text \<open>
  A \<open>Set\<close> of nodes keeps its members in insertion order and holds each once.
\<close>

definition set_add :: "nat \<Rightarrow> nat list \<Rightarrow> nat list" where
  "set_add x xs = (if x \<in> set xs then xs else xs @ [x])"

definition set_delete :: "nat \<Rightarrow> nat list \<Rightarrow> nat list" where
  "set_delete x xs = removeAll x xs"

text \<open>
  What \<open>onmessage\<close> reads from a \<open>LiveServerMessage\<close> (a type of the provider's client):
  the value of \<open>message.serverContent?.modelTurn?.parts[0]?.inlineData?.data\<close>, whether
  \<open>message.serverContent?.interrupted\<close> is truthy, and the text of each transcription
  that is present.
\<close>

record server_message =
  base64Audio :: "js_string option"
  interrupted :: bool
  inputTranscription :: "js_string option"
  outputTranscription :: "js_string option"

text \<open>
  What one run of \<open>onmessage\<close> reads from the outside: \<open>ctx.currentTime\<close> of the output
  context, the node that \<open>ctx.createBufferSource()\<close> returns, and the stamps of the two
  possible \<open>addMessage\<close> calls.
\<close>

record arrival =
  currentTime :: real
  newSource :: nat
  inputStamp :: stamp
  outputStamp :: stamp

text \<open>
  Lines 118 to 131. \<open>decodeAudioData\<close> and \<open>decode\<close> come from \<open>services/audio-utils\<close>;
  the parameter \<open>duration\<close> gives \<open>audioBuffer.duration\<close> of the buffer decoded from a
  payload. A handler runs to its end before the next event is handled.
\<close>

definition playChunk :: "(js_string \<Rightarrow> real) \<Rightarrow> arrival \<Rightarrow> js_string \<Rightarrow> app \<Rightarrow> app" where
  "playChunk duration a b s =
     (let start = max (nextStartTimeRef s) (currentTime a)
      in s\<lparr>mehuStatus := Speaking,
           effects := effects s @ [SourceStart (newSource a) start],
           nextStartTimeRef := start + duration b,
           sourcesRef := set_add (newSource a) (sourcesRef s)\<rparr>)"

text \<open>Lines 135 to 138.\<close>

definition interrupt :: "app \<Rightarrow> app" where
  "interrupt s =
     s\<lparr>effects := effects s @ map SourceStop (sourcesRef s),
       sourcesRef := [],
       nextStartTimeRef := 0,
       mehuStatus := Idle\<rparr>"

text \<open>Lines 141 to 146.\<close>

definition transcribe :: "stamp \<Rightarrow> role \<Rightarrow> js_string option \<Rightarrow> app \<Rightarrow> app" where
  "transcribe st r tr s =
     (case tr of
        None \<Rightarrow> s
      | Some t \<Rightarrow> s\<lparr>messages := addMessage st r t (messages s)\<rparr>)"

text \<open>The handler \<open>onmessage\<close> (lines 115 to 147); a string is truthy when it is not empty.\<close>

definition onmessage :: "(js_string \<Rightarrow> real) \<Rightarrow> arrival \<Rightarrow> server_message \<Rightarrow> app \<Rightarrow> app" where
  "onmessage duration a m s =
     (let s1 = (case base64Audio m of
                  None \<Rightarrow> s
                | Some b \<Rightarrow> if b = [] then s else playChunk duration a b s);
          s2 = (if interrupted m then interrupt s1 else s1);
          s3 = transcribe (inputStamp a) User (inputTranscription m) s2
      in transcribe (outputStamp a) Mehu (outputTranscription m) s3)"

text \<open>The listener of a node's \<open>ended\<close> event (lines 125 to 128).\<close>

definition onended :: "nat \<Rightarrow> app \<Rightarrow> app" where
  "onended src s =
     (let rest = set_delete src (sourcesRef s)
      in s\<lparr>sourcesRef := rest,
           mehuStatus := (if length rest = 0 then Idle else mehuStatus s)\<rparr>)"

text \<open>The callbacks \<open>onopen\<close> (its two state updates), \<open>onclose\<close> and \<open>onerror\<close>
  (lines 97 to 99, 148 and 149).\<close>

definition onopen :: "app \<Rightarrow> app" where
  "onopen s = s\<lparr>isLive := True, mehuStatus := Listening\<rparr>"

definition onclose :: "app \<Rightarrow> app" where
  "onclose s = s\<lparr>isLive := False\<rparr>"

definition onerror :: "app \<Rightarrow> app" where
  "onerror s = s\<lparr>isLive := False\<rparr>"

text \<open>\<open>stopLiveSession\<close> (lines 160 to 171).\<close>

definition stopLiveSession :: "app \<Rightarrow> app" where
  "stopLiveSession s =
     (let s1 = (case sessionRef s of
                  None \<Rightarrow> s
                | Some h \<Rightarrow> s\<lparr>effects := effects s @ [SessionClose h], sessionRef := None\<rparr>);
          s2 = (case audioContextRef s1 of
                  None \<Rightarrow> s1
                | Some c \<Rightarrow> s1\<lparr>effects := effects s1 @ [AudioContextClose c],
                                audioContextRef := None\<rparr>)
      in s2\<lparr>isLive := False, mehuStatus := Idle\<rparr>)"

section \<open>Sending text: \<open>handleSendText\<close>\<close>

text \<open>
  \<open>String.prototype.trim\<close> removes white space and line terminators from both ends:
  TAB, LF, VT, FF, CR, SP, NBSP, U+1680, U+2000 to U+200A, U+2028, U+2029, U+202F,
  U+205F, U+3000 and U+FEFF.
\<close>

definition isWhiteSpace :: "16 word \<Rightarrow> bool" where
  "isWhiteSpace u =
     (u \<in> set [0x9, 0xA, 0xB, 0xC, 0xD, 0x20, 0xA0, 0x1680, 0x2028, 0x2029, 0x202F,
               0x205F, 0x3000, 0xFEFF]
      \<or> (0x2000 \<le> u \<and> u \<le> 0x200A))"

definition trim :: "js_string \<Rightarrow> js_string" where
  "trim s = rev (dropWhile isWhiteSpace (rev (dropWhile isWhiteSpace s)))"

text \<open>\<open>v || d\<close> where \<open>v\<close> is a string or \<open>undefined\<close>.\<close>

definition or_else :: "js_string option \<Rightarrow> js_string \<Rightarrow> js_string" where
  "or_else v d = (case v of None \<Rightarrow> d | Some t \<Rightarrow> if t = [] then d else t)"

definition fallback :: js_string where
  "fallback = ascii ''I had a little brain freeze. Can you say that again, bestie?''"

datatype error = SendError | RequestError

text \<open>
  \<open>handleSendText\<close> (lines 183 to 206) is an \<open>async\<close> function: it runs from the submit
  event to the \<open>await\<close> of line 196, and the rest runs when the promise of
  \<open>generateContent\<close> settles. Other handlers of the component run in between, so the two
  parts are two steps on the state.

  What the first part reads from the outside: the stamp of its \<open>addMessage\<close> call and
  whether \<open>sessionRef.current.send\<close> throws.
\<close>

record submit =
  userStamp :: stamp
  sendThrows :: "error option"

text \<open>
  What the second part reads from the outside: the stamp of its \<open>addMessage\<close> call and
  how the promise settled: rejected, or resolved with \<open>response.text\<close> a string or
  \<open>undefined\<close>.
\<close>

record settlement =
  replyStamp :: stamp
  completion :: "error + js_string option"

text \<open>
  How a part of the handler ends: it returns, an error leaves it, or it is suspended at
  the \<open>await\<close> with the request under way.
\<close>

datatype outcome = Returned | Threw error | Awaiting

text \<open>Lines 184 to 196: from the submit event to the \<open>await\<close>.\<close>

definition handleSendText :: "submit \<Rightarrow> app \<Rightarrow> outcome \<times> app" where
  "handleSendText e s =
     (let s0 = s\<lparr>effects := effects s @ [PreventDefault]\<rparr>
      in if trim (inputText s) = [] then (Returned, s0)
         else
           let userMsg = inputText s;
               s1 = s0\<lparr>inputText := []\<rparr>;
               s2 = s1\<lparr>messages := addMessage (userStamp e) User userMsg (messages s1)\<rparr>
           in case (if isLive s then sessionRef s else None) of
                Some h \<Rightarrow>
                  (case sendThrows e of None \<Rightarrow> Returned | Some err \<Rightarrow> Threw err,
                   s2\<lparr>effects := effects s2 @ [SessionSend h userMsg]\<rparr>)
              | None \<Rightarrow> (Awaiting, s2\<lparr>effects := effects s2 @ [GenerateContent userMsg]\<rparr>))"

text \<open>
  Lines 201 to 204: the rest of the \<open>try\<close> when the promise resolves, the \<open>catch\<close> when
  it rejects, on the state the component has by then.
\<close>

definition handleSendText_resumed :: "settlement \<Rightarrow> app \<Rightarrow> outcome \<times> app" where
  "handleSendText_resumed c s =
     (case completion c of
        Inr reply \<Rightarrow>
          (Returned, s\<lparr>messages := addMessage (replyStamp c) Mehu
                                      (or_else reply (ascii ''...'')) (messages s)\<rparr>)
      | Inl err \<Rightarrow>
          (Returned, s\<lparr>messages := addMessage (replyStamp c) Mehu fallback (messages s)\<rparr>))"

text \<open>The text field's \<open>onChange\<close> (line 326) and the Flush Memory button (line 285).\<close>

definition onChange :: "js_string \<Rightarrow> app \<Rightarrow> app" where
  "onChange v s = s\<lparr>inputText := v\<rparr>"

definition flushMemory :: "app \<Rightarrow> app" where
  "flushMemory s = s\<lparr>messages := []\<rparr>"

text \<open>Observations of the effects: the nodes scheduled, with their start times, and the
  completion requests issued, the texts sent over the session.\<close>

fun scheduled :: "effect list \<Rightarrow> (nat \<times> real) list" where
  "scheduled [] = []"
| "scheduled (SourceStart n t # es) = (n, t) # scheduled es"
| "scheduled (_ # es) = scheduled es"

fun requests :: "effect list \<Rightarrow> js_string list" where
  "requests [] = []"
| "requests (GenerateContent p # es) = p # requests es"
| "requests (_ # es) = requests es"

fun sends :: "effect list \<Rightarrow> js_string list" where
  "sends [] = []"
| "sends (SessionSend h p # es) = p # sends es"
| "sends (_ # es) = sends es"

fun stopped :: "effect list \<Rightarrow> nat list" where
  "stopped [] = []"
| "stopped (SourceStop n # es) = n # stopped es"
| "stopped (_ # es) = stopped es"

section \<open>Example values\<close>

text \<open>
  A message that carries only an audio payload, one that carries only the interruption
  flag, the surroundings of a handler run at a given clock value with a given new node,
  a decoder under which a payload of \<open>n\<close> code units lasts \<open>n / 5\<close> seconds, and the
  state once lines 80 and 153 have stored the input context and the session and
  \<open>onopen\<close> has run; then the fresh component with a text typed in, and the
  surroundings of the two parts of a send.
\<close>

definition audio_message :: "js_string \<Rightarrow> server_message" where
  "audio_message b =
     \<lparr>base64Audio = Some b, interrupted = False,
      inputTranscription = None, outputTranscription = None\<rparr>"

definition interruption_message :: server_message where
  "interruption_message =
     \<lparr>base64Audio = None, interrupted = True,
      inputTranscription = None, outputTranscription = None\<rparr>"

definition arrives :: "real \<Rightarrow> nat \<Rightarrow> arrival" where
  "arrives t n =
     \<lparr>currentTime = t, newSource = n,
      inputStamp = \<lparr>randomId = ascii ''0.25'', now = 1000\<rparr>,
      outputStamp = \<lparr>randomId = ascii ''0.75'', now = 1000\<rparr>\<rparr>"

definition fifths :: "js_string \<Rightarrow> real" where
  "fifths b = real (length b) / 5"

definition opened :: app where
  "opened = onopen (init\<lparr>audioContextRef := Some 1, sessionRef := Some 2\<rparr>)"

definition typed :: "js_string \<Rightarrow> app" where
  "typed tx = init\<lparr>inputText := tx\<rparr>"

definition submits :: "int \<Rightarrow> submit" where
  "submits t = \<lparr>userStamp = \<lparr>randomId = ascii ''0.25'', now = t\<rparr>, sendThrows = None\<rparr>"

definition answers :: "int \<Rightarrow> error + js_string option \<Rightarrow> settlement" where
  "answers t c = \<lparr>replyStamp = \<lparr>randomId = ascii ''0.75'', now = t\<rparr>, completion = c\<rparr>"

text \<open>
  Two sends with both requests under way: \<open>hi\<close> is submitted, then \<open>yo\<close> is typed and
  submitted before the first request has settled.
\<close>

definition two_sends :: app where
  "two_sends =
     snd (handleSendText (submits 1100)
       (onChange (ascii ''yo'') (snd (handleSendText (submits 1000) (typed (ascii ''hi''))))))"

section \<open>Facts about the transcript\<close>

lemma str_includes_sublist: "str_includes cs pat = sublist pat cs"
  by (induction cs) (auto simp: sublist_Cons_right)

lemma addMessage_not_Nil: "addMessage st r tx prev \<noteq> []"
  by (simp add: addMessage_def)

lemma addMessage_last:
  "msg_role (last (addMessage st r tx prev)) = r \<and> msg_text (last (addMessage st r tx prev)) = tx"
  by (simp add: addMessage_def coalesces_def)

lemma coalesces_after_addMessage:
  "coalesces (addMessage st r t prev) r u = str_includes u t"
  using addMessage_not_Nil [of st r t prev] addMessage_last [of st r t prev]
  by (simp add: coalesces_def)

text \<open>
  C9. For every transcript and every append, the entries before the last one are the
  same entries in the same order. When a new entry is created the old transcript is a
  prefix of the new one, which is longer by exactly one; when the last entry is
  coalesced the length is the same and the last entry keeps its id and role.
\<close>

theorem addMessage_frame:
  "take (length prev - 1) (addMessage st r tx prev) = take (length prev - 1) prev
   \<and> (if coalesces prev r tx
      then length (addMessage st r tx prev) = length prev
         \<and> last (addMessage st r tx prev) = (last prev)\<lparr>msg_text := tx, msg_timestamp := now st\<rparr>
      else length (addMessage st r tx prev) = length prev + 1
         \<and> take (length prev) (addMessage st r tx prev) = prev
         \<and> last (addMessage st r tx prev) =
             \<lparr>msg_id = randomId st, msg_role = r, msg_text = tx, msg_timestamp = now st\<rparr>)"
  by (simp add: addMessage_def coalesces_def butlast_conv_take)

text \<open>An append that coalesces and one that creates an entry, on the same transcript.\<close>

theorem addMessage_frame_witness:
  "coalesces [\<lparr>msg_id = ascii ''0.1'', msg_role = User, msg_text = ascii ''What is'', msg_timestamp = 1000\<rparr>]
      User (ascii ''What is gravity?'')
   \<and> length (addMessage \<lparr>randomId = ascii ''0.2'', now = 2000\<rparr> User (ascii ''What is gravity?'')
        [\<lparr>msg_id = ascii ''0.1'', msg_role = User, msg_text = ascii ''What is'', msg_timestamp = 1000\<rparr>]) = 1
   \<and> \<not> coalesces [\<lparr>msg_id = ascii ''0.1'', msg_role = User, msg_text = ascii ''What is'', msg_timestamp = 1000\<rparr>]
      Mehu (ascii ''What is gravity?'')
   \<and> length (addMessage \<lparr>randomId = ascii ''0.2'', now = 2000\<rparr> Mehu (ascii ''What is gravity?'')
        [\<lparr>msg_id = ascii ''0.1'', msg_role = User, msg_text = ascii ''What is'', msg_timestamp = 1000\<rparr>]) = 2"
proof -
  let ?prev = "[\<lparr>msg_id = ascii ''0.1'', msg_role = User, msg_text = ascii ''What is'', msg_timestamp = 1000\<rparr>]"
  let ?st = "\<lparr>randomId = ascii ''0.2'', now = 2000\<rparr>"
  have a: "coalesces ?prev User (ascii ''What is gravity?'')"
    by (simp add: coalesces_def ascii_def)
  have b: "\<not> coalesces ?prev Mehu (ascii ''What is gravity?'')"
    by (simp add: coalesces_def)
  from a b
    addMessage_frame [where prev = ?prev and st = ?st and r = User and tx = "ascii ''What is gravity?''"]
    addMessage_frame [where prev = ?prev and st = ?st and r = Mehu and tx = "ascii ''What is gravity?''"]
  show ?thesis by simp
qed

lemma addMessage_coalesced:
  "coalesces prev r tx \<Longrightarrow>
   addMessage st r tx prev = butlast prev @ [(last prev)\<lparr>msg_text := tx, msg_timestamp := now st\<rparr>]"
  by (simp add: addMessage_def)

lemma addMessage_restamp:
  "addMessage st r t prev =
   butlast (addMessage st r t prev)
     @ [(last (addMessage st r t prev))\<lparr>msg_text := t, msg_timestamp := now st\<rparr>]"
  by (simp add: addMessage_def)

lemma addMessages_growing:
  "growing (t # map snd evs) \<Longrightarrow>
   addMessages r evs (addMessage st r t prev) =
   butlast (addMessage st r t prev)
     @ [(last (addMessage st r t prev))
          \<lparr>msg_text := last (t # map snd evs), msg_timestamp := now (last (st # map fst evs))\<rparr>]"
proof (induction evs arbitrary: st t prev)
  case Nil
  show ?case using addMessage_restamp [of st r t prev] by simp
next
  case (Cons ev evs)
  obtain st' t' where ev: "ev = (st', t')" by (cases ev)
  let ?X = "addMessage st r t prev"
  let ?Y = "addMessage st' r t' ?X"
  from Cons.prems ev have inc: "str_includes t' t" and gr: "growing (t' # map snd evs)"
    by simp_all
  from inc have co: "coalesces ?X r t'"
    by (simp add: coalesces_after_addMessage)
  have Y: "?Y = butlast ?X @ [(last ?X)\<lparr>msg_text := t', msg_timestamp := now st'\<rparr>]"
    using co by (rule addMessage_coalesced)
  have "addMessages r (ev # evs) ?X = addMessages r evs ?Y"
    by (simp add: ev)
  also have "\<dots> = butlast ?Y @ [(last ?Y)
      \<lparr>msg_text := last (t' # map snd evs), msg_timestamp := now (last (st' # map fst evs))\<rparr>]"
    using gr by (rule Cons.IH)
  also have "\<dots> = butlast ?X @ [(last ?X)
      \<lparr>msg_text := last (t' # map snd evs), msg_timestamp := now (last (st' # map fst evs))\<rparr>]"
    by (subst (1 2) Y) simp
  finally show ?case by (simp add: ev)
qed

text \<open>
  C1. For every non-empty run of partial transcriptions of one speaker in which each text
  contains the text before it, applied in order to any transcript: the whole run occupies
  exactly one entry (the transcript is the one left by the first append of the run, with
  only the text and the timestamp of its last entry replaced), that entry belongs to the
  speaker, and its text is the last text received. Starting from the empty transcript the
  result has exactly one entry.
\<close>

theorem addMessages_one_entry:
  assumes "growing (t # map snd evs)"
  shows "addMessages r ((st, t) # evs) prev =
           butlast (addMessage st r t prev)
             @ [(last (addMessage st r t prev))
                  \<lparr>msg_text := last (t # map snd evs),
                   msg_timestamp := now (last (st # map fst evs))\<rparr>]
         \<and> length (addMessages r ((st, t) # evs) prev) =
             (if coalesces prev r t then length prev else length prev + 1)
         \<and> msg_role (last (addMessages r ((st, t) # evs) prev)) = r
         \<and> msg_text (last (addMessages r ((st, t) # evs) prev)) = last (t # map snd evs)
         \<and> (prev = [] \<longrightarrow> length (addMessages r ((st, t) # evs) prev) = 1)"
proof -
  let ?X = "addMessage st r t prev"
  have eq: "addMessages r ((st, t) # evs) prev =
      butlast ?X @ [(last ?X)\<lparr>msg_text := last (t # map snd evs),
                                msg_timestamp := now (last (st # map fst evs))\<rparr>]"
    using addMessages_growing [OF assms] by simp
  have len: "length ?X = (if coalesces prev r t then length prev else length prev + 1)"
    by (simp add: addMessage_def coalesces_def)
  have "?X \<noteq> []" by (rule addMessage_not_Nil)
  then have len': "length (butlast ?X) + 1 = length ?X" by simp
  have rl: "msg_role (last ?X) = r" using addMessage_last by blast
  let ?F = "addMessages r ((st, t) # evs) prev"
  have lenF: "length ?F = length (butlast ?X) + 1"
    by (subst eq) simp
  have lastF: "last ?F = (last ?X)\<lparr>msg_text := last (t # map snd evs),
                     msg_timestamp := now (last (st # map fst evs))\<rparr>"
    by (subst eq) simp
  have c2: "length ?F = (if coalesces prev r t then length prev else length prev + 1)"
    using lenF len len' by simp
  have c3: "msg_role (last ?F) = r"
    using lastF rl by simp
  have c4: "msg_text (last ?F) = last (t # map snd evs)"
    using lastF by simp
  have c5: "prev = [] \<longrightarrow> length ?F = 1"
    using c2 by (auto simp: coalesces_def simp del: addMessages.simps)
  from eq c2 c3 c4 c5 show ?thesis by blast
qed

text \<open>The user says \<open>What is\<close>, then \<open>What is gravity?\<close>: one entry, with the second text.\<close>

theorem addMessages_one_entry_witness:
  "growing [ascii ''What is'', ascii ''What is gravity?'']
   \<and> addMessages User [(\<lparr>randomId = ascii ''0.1'', now = 1000\<rparr>, ascii ''What is''),
                       (\<lparr>randomId = ascii ''0.2'', now = 2000\<rparr>, ascii ''What is gravity?'')] []
     = [\<lparr>msg_id = ascii ''0.1'', msg_role = User, msg_text = ascii ''What is gravity?'',
         msg_timestamp = 2000\<rparr>]"
proof -
  have g: "growing (ascii ''What is'' # map snd [(\<lparr>randomId = ascii ''0.2'', now = 2000\<rparr>, ascii ''What is gravity?'')])"
    by (simp add: ascii_def)
  have x: "addMessage \<lparr>randomId = ascii ''0.1'', now = 1000\<rparr> User (ascii ''What is'') []
     = [\<lparr>msg_id = ascii ''0.1'', msg_role = User, msg_text = ascii ''What is'', msg_timestamp = 1000\<rparr>]"
    by (simp add: addMessage_def coalesces_def)
  from g have "growing [ascii ''What is'', ascii ''What is gravity?'']" by simp
  moreover have "addMessages User [(\<lparr>randomId = ascii ''0.1'', now = 1000\<rparr>, ascii ''What is''),
                       (\<lparr>randomId = ascii ''0.2'', now = 2000\<rparr>, ascii ''What is gravity?'')] []
     = [\<lparr>msg_id = ascii ''0.1'', msg_role = User, msg_text = ascii ''What is gravity?'',
         msg_timestamp = 2000\<rparr>]"
    using addMessages_one_entry [OF g, of User "\<lparr>randomId = ascii ''0.1'', now = 1000\<rparr>" "[]"]
    by (simp only: x) simp
  ultimately show ?thesis by blast
qed

section \<open>Facts about the session controller\<close>

lemma transcribe_frame:
  "nextStartTimeRef (transcribe st r tr s) = nextStartTimeRef s
   \<and> sourcesRef (transcribe st r tr s) = sourcesRef s
   \<and> mehuStatus (transcribe st r tr s) = mehuStatus s
   \<and> effects (transcribe st r tr s) = effects s
   \<and> isLive (transcribe st r tr s) = isLive s"
  by (simp add: transcribe_def split: option.splits)

lemma scheduled_append: "scheduled (es @ fs) = scheduled es @ scheduled fs"
  by (induction es rule: scheduled.induct) simp_all

lemma scheduled_stops: "scheduled (map SourceStop ns) = []"
  by (induction ns) simp_all

lemma stopped_append: "stopped (es @ fs) = stopped es @ stopped fs"
  by (induction es rule: stopped.induct) simp_all

lemma onmessage_chunk:
  assumes "base64Audio m = Some b" "b \<noteq> []" "\<not> interrupted m"
    "currentTime a \<le> nextStartTimeRef s"
  shows "nextStartTimeRef (onmessage duration a m s) = nextStartTimeRef s + duration b"
    and "effects (onmessage duration a m s) = effects s @ [SourceStart (newSource a) (nextStartTimeRef s)]"
    and "mehuStatus (onmessage duration a m s) = Speaking"
  using assms by (simp_all add: onmessage_def Let_def transcribe_frame playChunk_def max_def)

text \<open>
  C2. Three audio chunks arrive one after the other, with no interruption flag, each
  while the playback clock does not exceed the scheduling cursor. Then the three nodes
  are started, in arrival order, at the cursor, at the cursor plus the first duration and
  at that plus the second duration: each chunk starts where the one before it ends. The
  cursor ends at its first value plus the three durations, which is \<open>d1 + d2 + d3\<close> when it
  was zero before the first chunk.
\<close>

theorem chunks_back_to_back:
  assumes "base64Audio m1 = Some b1" "b1 \<noteq> []" "\<not> interrupted m1"
    and "base64Audio m2 = Some b2" "b2 \<noteq> []" "\<not> interrupted m2"
    and "base64Audio m3 = Some b3" "b3 \<noteq> []" "\<not> interrupted m3"
    and "currentTime a1 \<le> nextStartTimeRef s"
    and "currentTime a2 \<le> nextStartTimeRef s + duration b1"
    and "currentTime a3 \<le> nextStartTimeRef s + duration b1 + duration b2"
  shows "scheduled (effects (onmessage duration a3 m3 (onmessage duration a2 m2 (onmessage duration a1 m1 s))))
         = scheduled (effects s) @
           [(newSource a1, nextStartTimeRef s),
            (newSource a2, nextStartTimeRef s + duration b1),
            (newSource a3, nextStartTimeRef s + duration b1 + duration b2)]
       \<and> nextStartTimeRef (onmessage duration a3 m3 (onmessage duration a2 m2 (onmessage duration a1 m1 s)))
         = nextStartTimeRef s + duration b1 + duration b2 + duration b3
       \<and> (nextStartTimeRef s = 0 \<longrightarrow>
          nextStartTimeRef (onmessage duration a3 m3 (onmessage duration a2 m2 (onmessage duration a1 m1 s)))
          = duration b1 + duration b2 + duration b3)"
proof -
  let ?s1 = "onmessage duration a1 m1 s"
  let ?s2 = "onmessage duration a2 m2 ?s1"
  let ?s3 = "onmessage duration a3 m3 ?s2"
  have n1: "nextStartTimeRef ?s1 = nextStartTimeRef s + duration b1"
    and e1: "effects ?s1 = effects s @ [SourceStart (newSource a1) (nextStartTimeRef s)]"
    using assms(1,2,3,10) by (rule onmessage_chunk)+
  have c2: "currentTime a2 \<le> nextStartTimeRef ?s1" using assms(11) n1 by simp
  have n2: "nextStartTimeRef ?s2 = nextStartTimeRef ?s1 + duration b2"
    and e2: "effects ?s2 = effects ?s1 @ [SourceStart (newSource a2) (nextStartTimeRef ?s1)]"
    using assms(4,5,6) c2 by (rule onmessage_chunk)+
  have c3: "currentTime a3 \<le> nextStartTimeRef ?s2" using assms(12) n1 n2 by simp
  have n3: "nextStartTimeRef ?s3 = nextStartTimeRef ?s2 + duration b3"
    and e3: "effects ?s3 = effects ?s2 @ [SourceStart (newSource a3) (nextStartTimeRef ?s2)]"
    using assms(7,8,9) c3 by (rule onmessage_chunk)+
  have sched: "scheduled (effects ?s3) = scheduled (effects s) @
           [(newSource a1, nextStartTimeRef s),
            (newSource a2, nextStartTimeRef s + duration b1),
            (newSource a3, nextStartTimeRef s + duration b1 + duration b2)]"
    by (simp add: e3 e2 e1 n2 n1 scheduled_append)
  have cur: "nextStartTimeRef ?s3 = nextStartTimeRef s + duration b1 + duration b2 + duration b3"
    by (simp add: n3 n2 n1)
  from sched cur show ?thesis by simp
qed

text \<open>From the opened session, chunks of 1.2, 0.8 and 1 seconds arriving at clock values
  0, 1 and 2: started at 0, 1.2 and 2, cursor 3.\<close>

theorem chunks_back_to_back_witness:
  "currentTime (arrives 0 1) \<le> nextStartTimeRef opened
   \<and> currentTime (arrives 1 2) \<le> nextStartTimeRef opened + fifths (ascii ''AAAAAA'')
   \<and> scheduled (effects (onmessage fifths (arrives 2 3) (audio_message (ascii ''CCCCC''))
        (onmessage fifths (arrives 1 2) (audio_message (ascii ''BBBB''))
          (onmessage fifths (arrives 0 1) (audio_message (ascii ''AAAAAA'')) opened))))
       = [(1, 0), (2, 1.2), (3, 2)]
   \<and> nextStartTimeRef (onmessage fifths (arrives 2 3) (audio_message (ascii ''CCCCC''))
        (onmessage fifths (arrives 1 2) (audio_message (ascii ''BBBB''))
          (onmessage fifths (arrives 0 1) (audio_message (ascii ''AAAAAA'')) opened)))
       = 1.2 + 0.8 + 1"
proof -
  have s0: "nextStartTimeRef opened = 0" "scheduled (effects opened) = []"
    by (simp_all add: opened_def onopen_def init_def)
  have d: "fifths (ascii ''AAAAAA'') = 1.2" "fifths (ascii ''BBBB'') = 0.8"
    "fifths (ascii ''CCCCC'') = 1"
    by (simp_all add: fifths_def ascii_def)
  have m: "base64Audio (audio_message b) = Some b" "\<not> interrupted (audio_message b)" for b
    by (simp_all add: audio_message_def)
  have n: "ascii ''AAAAAA'' \<noteq> []" "ascii ''BBBB'' \<noteq> []" "ascii ''CCCCC'' \<noteq> []"
    by (simp_all add: ascii_def)
  have c: "currentTime (arrives t k) = t" "newSource (arrives t k) = k" for t k
    by (simp_all add: arrives_def)
  have h1: "currentTime (arrives 0 1) \<le> nextStartTimeRef opened"
    by (simp add: c s0)
  have h2: "currentTime (arrives 1 2) \<le> nextStartTimeRef opened + fifths (ascii ''AAAAAA'')"
    by (simp add: c s0 d)
  have h3: "currentTime (arrives 2 3) \<le> nextStartTimeRef opened + fifths (ascii ''AAAAAA'')
      + fifths (ascii ''BBBB'')"
    by (simp add: c s0 d)
  from chunks_back_to_back [OF m(1) n(1) m(2) m(1) n(2) m(2) m(1) n(3) m(2) h1 h2 h3] h1 h2
  show ?thesis by (simp add: s0 d c)
qed

lemma onmessage_interrupted:
  assumes "interrupted m"
  shows "nextStartTimeRef (onmessage duration a m s) = 0"
    and "sourcesRef (onmessage duration a m s) = []"
    and "mehuStatus (onmessage duration a m s) = Idle"
  using assms by (simp_all add: onmessage_def Let_def transcribe_frame interrupt_def)

lemma onmessage_scheduled:
  assumes "base64Audio m = Some b" "b \<noteq> []"
  shows "scheduled (effects (onmessage duration a m s))
         = scheduled (effects s) @ [(newSource a, max (nextStartTimeRef s) (currentTime a))]"
  using assms
  by (simp add: onmessage_def Let_def transcribe_frame playChunk_def interrupt_def
      scheduled_append scheduled_stops)

text \<open>
  C3. A message whose interruption flag is set leaves the scheduling cursor at zero, the
  set of active nodes empty and the status idle, from every state and whatever else the
  message carries. The chunk of the message handled next is started at the playback clock
  of its arrival (the clock of an audio context is never negative), whatever the cursor
  was before the interruption.
\<close>

theorem interruption_resets:
  assumes "interrupted m"
  shows "nextStartTimeRef (onmessage duration a m s) = 0
       \<and> sourcesRef (onmessage duration a m s) = []
       \<and> mehuStatus (onmessage duration a m s) = Idle
       \<and> (\<forall>a' m' b. base64Audio m' = Some b \<and> b \<noteq> [] \<and> 0 \<le> currentTime a' \<longrightarrow>
            scheduled (effects (onmessage duration a' m' (onmessage duration a m s)))
            = scheduled (effects (onmessage duration a m s)) @ [(newSource a', currentTime a')])"
proof -
  note r = onmessage_interrupted [OF assms, of duration a s]
  have "scheduled (effects (onmessage duration a' m' (onmessage duration a m s)))
        = scheduled (effects (onmessage duration a m s)) @ [(newSource a', currentTime a')]"
    if "base64Audio m' = Some b" "b \<noteq> []" "0 \<le> currentTime a'" for a' m' b
    using onmessage_scheduled [OF that(1,2), of duration a' "onmessage duration a m s"] that(3)
    by (simp add: r(1))
  with r show ?thesis by blast
qed

text \<open>A chunk moves the cursor to 1.8; the interruption arrives; the next chunk, arriving
  at clock value 7, is started at 7.\<close>

theorem interruption_resets_witness:
  "interrupted interruption_message
   \<and> 0 \<le> currentTime (arrives 7 4)
   \<and> nextStartTimeRef (onmessage fifths (arrives 1 2) (audio_message (ascii ''BBBB'')) opened) = 1.8
   \<and> sourcesRef (onmessage fifths (arrives 1 2) (audio_message (ascii ''BBBB'')) opened) = [2]
   \<and> nextStartTimeRef (onmessage fifths (arrives 2 3) interruption_message
        (onmessage fifths (arrives 1 2) (audio_message (ascii ''BBBB'')) opened)) = 0
   \<and> sourcesRef (onmessage fifths (arrives 2 3) interruption_message
        (onmessage fifths (arrives 1 2) (audio_message (ascii ''BBBB'')) opened)) = []
   \<and> mehuStatus (onmessage fifths (arrives 2 3) interruption_message
        (onmessage fifths (arrives 1 2) (audio_message (ascii ''BBBB'')) opened)) = Idle
   \<and> scheduled (effects (onmessage fifths (arrives 7 4) (audio_message (ascii ''CCCCC''))
        (onmessage fifths (arrives 2 3) interruption_message
          (onmessage fifths (arrives 1 2) (audio_message (ascii ''BBBB'')) opened))))
       = [(2, 1), (4, 7)]"
proof -
  let ?s1 = "onmessage fifths (arrives 1 2) (audio_message (ascii ''BBBB'')) opened"
  have i: "interrupted interruption_message"
    by (simp add: interruption_message_def)
  have t: "0 \<le> currentTime (arrives 7 4)"
    by (simp add: arrives_def)
  have b: "base64Audio (audio_message (ascii ''CCCCC'')) = Some (ascii ''CCCCC'')
      \<and> ascii ''CCCCC'' \<noteq> [] \<and> 0 \<le> currentTime (arrives 7 4)"
    by (simp add: audio_message_def ascii_def arrives_def)
  have s1: "nextStartTimeRef ?s1 = 1.8" "sourcesRef ?s1 = [2]"
    "scheduled (effects ?s1) = [(2, 1)]"
    by (simp_all add: onmessage_def playChunk_def transcribe_def audio_message_def arrives_def
        opened_def onopen_def init_def fifths_def ascii_def set_add_def Let_def)
  have e: "scheduled (effects (onmessage fifths (arrives 2 3) interruption_message ?s1))
      = [(2, 1)]"
    using s1 by (simp add: onmessage_def interrupt_def transcribe_def interruption_message_def
        scheduled_append scheduled_stops Let_def)
  let ?s2 = "onmessage fifths (arrives 2 3) interruption_message ?s1"
  let ?s3 = "onmessage fifths (arrives 7 4) (audio_message (ascii ''CCCCC'')) ?s2"
  have c: "currentTime (arrives u k) = u" "newSource (arrives u k) = k" for u k
    by (simp_all add: arrives_def)
  note R = interruption_resets [OF i, of fifths "arrives 2 3" ?s1]
  from R have r1: "nextStartTimeRef ?s2 = 0" and r2: "sourcesRef ?s2 = []"
    and r3: "mehuStatus ?s2 = Idle"
    by blast+
  from R b have "scheduled (effects ?s3)
      = scheduled (effects ?s2) @ [(newSource (arrives 7 4), currentTime (arrives 7 4))]"
    by blast
  then have r4: "scheduled (effects ?s3) = [(2, 1), (4, 7)]"
    by (simp add: e c)
  from i t s1(1,2) r1 r2 r3 r4 show ?thesis by blast
qed

text \<open>
  C5. From every state, \<open>stopLiveSession\<close> leaves the status idle, \<open>isLive\<close> false and
  both references cleared; stopping twice gives the state that stopping once gives, and
  in particular the second call closes nothing. The function has no failing branch.
\<close>

theorem stopLiveSession_idempotent:
  "stopLiveSession (stopLiveSession s) = stopLiveSession s
   \<and> mehuStatus (stopLiveSession s) = Idle
   \<and> \<not> isLive (stopLiveSession s)
   \<and> sessionRef (stopLiveSession s) = None
   \<and> audioContextRef (stopLiveSession s) = None"
  by (simp add: stopLiveSession_def Let_def split: option.splits)

text \<open>Stopping the opened session closes the session and the input context once;
  stopping when nothing was started changes nothing.\<close>

theorem stopLiveSession_idempotent_witness:
  "stopLiveSession (stopLiveSession opened) = stopLiveSession opened
   \<and> effects (stopLiveSession (stopLiveSession opened)) = [SessionClose 2, AudioContextClose 1]
   \<and> mehuStatus opened = Listening
   \<and> mehuStatus (stopLiveSession opened) = Idle
   \<and> stopLiveSession init = init"
  using stopLiveSession_idempotent [of opened] stopLiveSession_idempotent [of init]
  by (simp add: stopLiveSession_def opened_def onopen_def init_def)

lemma stopLiveSession_sources:
  "sourcesRef (stopLiveSession s) = sourcesRef s
   \<and> stopped (effects (stopLiveSession s)) = stopped (effects s)
   \<and> nextStartTimeRef (stopLiveSession s) = nextStartTimeRef s"
  by (simp add: stopLiveSession_def Let_def stopped_append split: option.splits)

text \<open>
  C6. The claim is that stopping the session stops every playing node and empties the
  set of active nodes. \<open>stopLiveSession\<close> touches neither the set nor the nodes nor the
  cursor: with one chunk scheduled, the node is still in the set after the stop, no node
  has been stopped, and the cursor keeps its value. The interruption branch of
  \<open>onmessage\<close> is the path that does stop the nodes and clear the set.
\<close>

theorem stopLiveSession_leaves_sources:
  "sourcesRef (onmessage fifths (arrives 1 2) (audio_message (ascii ''BBBB'')) opened) = [2]
   \<and> sourcesRef (stopLiveSession
        (onmessage fifths (arrives 1 2) (audio_message (ascii ''BBBB'')) opened)) = [2]
   \<and> stopped (effects (stopLiveSession
        (onmessage fifths (arrives 1 2) (audio_message (ascii ''BBBB'')) opened))) = []
   \<and> nextStartTimeRef (stopLiveSession
        (onmessage fifths (arrives 1 2) (audio_message (ascii ''BBBB'')) opened)) = 1.8"
proof -
  let ?s1 = "onmessage fifths (arrives 1 2) (audio_message (ascii ''BBBB'')) opened"
  have s1: "nextStartTimeRef ?s1 = 1.8" "sourcesRef ?s1 = [2]" "stopped (effects ?s1) = []"
    by (simp_all add: onmessage_def playChunk_def transcribe_def audio_message_def arrives_def
        opened_def onopen_def init_def fifths_def ascii_def set_add_def Let_def)
  show ?thesis using stopLiveSession_sources [of ?s1] by (simp add: s1)
qed

lemma onclose_status:
  "mehuStatus (onclose s) = mehuStatus s \<and> \<not> isLive (onclose s)
  \<and> mehuStatus (onerror s) = mehuStatus s \<and> \<not> isLive (onerror s)"
  by (simp add: onclose_def onerror_def)

text \<open>
  C7. The claim is that a close or an error of the remote side forces the status to idle
  and marks the session as not live. \<open>onclose\<close> and \<open>onerror\<close> clear \<open>isLive\<close> only: from
  the opened session the status is still listening afterwards, where \<open>stopLiveSession\<close>
  leaves it idle.
\<close>

theorem onclose_leaves_status:
  "mehuStatus (onclose opened) = Listening \<and> \<not> isLive (onclose opened)
   \<and> mehuStatus (onerror opened) = Listening \<and> \<not> isLive (onerror opened)
   \<and> mehuStatus (stopLiveSession opened) = Idle"
  using onclose_status [of opened]
  by (simp add: stopLiveSession_def opened_def onopen_def init_def)

section \<open>Facts about sending text\<close>

text \<open>The trimmed input is empty exactly when every code unit of the input is white space.\<close>

lemma trim_Nil_iff: "trim s = [] \<longleftrightarrow> (\<forall>u\<in>set s. isWhiteSpace u)"
proof
  assume "trim s = []"
  then have "dropWhile isWhiteSpace (rev (dropWhile isWhiteSpace s)) = []"
    by (simp add: trim_def)
  then have all: "\<forall>u\<in>set (dropWhile isWhiteSpace s). isWhiteSpace u"
    by (simp add: dropWhile_eq_Nil_conv)
  have "dropWhile isWhiteSpace s = []"
  proof (rule ccontr)
    assume ne: "dropWhile isWhiteSpace s \<noteq> []"
    then have "\<not> isWhiteSpace (hd (dropWhile isWhiteSpace s))"
      by (rule hd_dropWhile)
    moreover from ne have "hd (dropWhile isWhiteSpace s) \<in> set (dropWhile isWhiteSpace s)"
      by simp
    ultimately show False using all by blast
  qed
  then show "\<forall>u\<in>set s. isWhiteSpace u"
    by (simp add: dropWhile_eq_Nil_conv)
next
  assume "\<forall>u\<in>set s. isWhiteSpace u"
  then have "dropWhile isWhiteSpace s = []"
    by (simp add: dropWhile_eq_Nil_conv)
  then show "trim s = []"
    unfolding trim_def by (simp del: dropWhile_eq_Nil_conv)
qed

lemma requests_append: "requests (es @ fs) = requests es @ requests fs"
  by (induction es rule: requests.induct) simp_all

lemma sends_append: "sends (es @ fs) = sends es @ sends fs"
  by (induction es rule: sends.induct) simp_all

text \<open>
  C8. When the input is empty or holds white space only, submitting the form does nothing
  but \<open>preventDefault\<close>: the handler returns at once, with no error, no completion
  request, nothing sent over the session, and the transcript, like every other part of
  the state, unchanged.
\<close>

theorem blank_submit_noop:
  assumes "\<forall>u\<in>set (inputText s). isWhiteSpace u"
  shows "handleSendText e s = (Returned, s\<lparr>effects := effects s @ [PreventDefault]\<rparr>)
       \<and> messages (snd (handleSendText e s)) = messages s
       \<and> requests (effects (snd (handleSendText e s))) = requests (effects s)
       \<and> sends (effects (snd (handleSendText e s))) = sends (effects s)"
proof -
  from assms have "trim (inputText s) = []" by (simp add: trim_Nil_iff)
  then have "handleSendText e s = (Returned, s\<lparr>effects := effects s @ [PreventDefault]\<rparr>)"
    by (simp add: handleSendText_def)
  then show ?thesis by (simp add: requests_append sends_append)
qed

text \<open>An input of a space, a tab, an ideographic space and a line feed.\<close>

theorem blank_submit_noop_witness:
  "list_all isWhiteSpace (inputText (typed [0x20, 0x9, 0x3000, 0xA]))
   \<and> handleSendText (submits 1000) (typed [0x20, 0x9, 0x3000, 0xA])
       = (Returned, (typed [0x20, 0x9, 0x3000, 0xA])\<lparr>effects := [PreventDefault]\<rparr>)
   \<and> messages (snd (handleSendText (submits 1000) (typed [0x20, 0x9, 0x3000, 0xA]))) = []"
proof -
  have h: "\<forall>u\<in>set (inputText (typed [0x20, 0x9, 0x3000, 0xA])). isWhiteSpace u"
    by (simp add: typed_def isWhiteSpace_def)
  have e: "effects (typed tx) = []" "messages (typed tx) = []" for tx
    by (simp_all add: typed_def init_def)
  from h have l: "list_all isWhiteSpace (inputText (typed [0x20, 0x9, 0x3000, 0xA]))"
    by (simp add: list_all_iff)
  from blank_submit_noop [OF h, of "submits 1000"] l
  show ?thesis by (simp add: e)
qed

lemma addMessage_roles:
  "map msg_role (addMessage st r tx prev) =
   (if coalesces prev r tx then map msg_role prev else map msg_role prev @ [r])"
proof (cases "coalesces prev r tx")
  case True
  then have ne: "prev \<noteq> []" by (simp add: coalesces_def)
  then have "map msg_role prev = map msg_role (butlast prev @ [last prev])" by simp
  also have "\<dots> = map msg_role (butlast prev) @ [msg_role (last prev)]" by simp
  finally show ?thesis using True by (simp add: addMessage_def)
next
  case False
  then show ?thesis by (simp add: addMessage_def)
qed

lemma count_role:
  "length (filter (\<lambda>m. msg_role m = q) ms) = length (filter (\<lambda>x. x = q) (map msg_role ms))"
  by (induction ms) simp_all

lemma addMessage_count:
  "length (filter (\<lambda>m. msg_role m = q) (addMessage st r tx prev)) =
   (if coalesces prev r tx \<or> r \<noteq> q then length (filter (\<lambda>m. msg_role m = q) prev)
    else length (filter (\<lambda>m. msg_role m = q) prev) + 1)"
  by (auto simp: count_role addMessage_roles)

lemma addMessage_other_role:
  "msg_role (last prev) \<noteq> r \<Longrightarrow>
   addMessage st r tx prev = prev @ [\<lparr>msg_id = randomId st, msg_role = r, msg_text = tx, msg_timestamp = now st\<rparr>]"
  by (simp add: addMessage_def coalesces_def)

lemma handleSendText_offline:
  assumes "\<not> (\<forall>u\<in>set (inputText s). isWhiteSpace u)" "\<not> (isLive s \<and> sessionRef s \<noteq> None)"
  shows "handleSendText e s =
     (Awaiting, s\<lparr>effects := effects s @ [PreventDefault, GenerateContent (inputText s)],
                 inputText := [],
                 messages := addMessage (userStamp e) User (inputText s) (messages s)\<rparr>)"
proof -
  from assms(1) have t: "trim (inputText s) \<noteq> []" by (simp add: trim_Nil_iff)
  from assms(2) have l: "(if isLive s then sessionRef s else None) = None" by auto
  show ?thesis
    by (simp add: handleSendText_def t l Let_def)
qed

lemma handleSendText_resumed_eq:
  "handleSendText_resumed c s =
     (Returned, s\<lparr>messages := addMessage (replyStamp c) Mehu
        (case completion c of Inl err \<Rightarrow> fallback | Inr reply \<Rightarrow> or_else reply (ascii ''...''))
        (messages s)\<rparr>)"
  by (simp add: handleSendText_resumed_def split: sum.splits)

text \<open>
  C4, as amended. The input is not blank and no live session is active. Then the handler
  issues exactly one completion request, for the input text, and is suspended on it. When
  the request settles, on whatever state \<open>s'\<close> the component has by then, the handler
  returns without an error, issues no further request, and makes one \<open>addMessage\<close> call
  for the assistant: with the fallback text when the request failed, with the reply (or
  its stand-in) when it succeeded. That call appends exactly one assistant entry, unless
  the last entry is by then an assistant entry whose text the new text contains: then that
  entry is rewritten and no entry is added. When nothing is handled between the two parts,
  the last entry is the user's and exactly one assistant entry is appended.
\<close>

theorem offline_send_settles_once:
  assumes "\<not> (\<forall>u\<in>set (inputText s). isWhiteSpace u)" "\<not> (isLive s \<and> sessionRef s \<noteq> None)"
  shows "fst (handleSendText u s) = Awaiting
       \<and> requests (effects (snd (handleSendText u s))) = requests (effects s) @ [inputText s]
       \<and> fst (handleSendText_resumed c s') = Returned
       \<and> effects (snd (handleSendText_resumed c s')) = effects s'
       \<and> messages (snd (handleSendText_resumed c s'))
           = addMessage (replyStamp c) Mehu
               (case completion c of Inl err \<Rightarrow> fallback | Inr reply \<Rightarrow> or_else reply (ascii ''...''))
               (messages s')
       \<and> length (filter (\<lambda>m. msg_role m = Mehu) (messages (snd (handleSendText_resumed c s'))))
           = (if coalesces (messages s') Mehu
                  (case completion c of Inl err \<Rightarrow> fallback | Inr reply \<Rightarrow> or_else reply (ascii ''...''))
              then length (filter (\<lambda>m. msg_role m = Mehu) (messages s'))
              else length (filter (\<lambda>m. msg_role m = Mehu) (messages s')) + 1)
       \<and> messages (snd (handleSendText_resumed c (snd (handleSendText u s))))
           = addMessage (userStamp u) User (inputText s) (messages s)
             @ [\<lparr>msg_id = randomId (replyStamp c), msg_role = Mehu,
                 msg_text = (case completion c of
                               Inl err \<Rightarrow> fallback
                             | Inr reply \<Rightarrow> or_else reply (ascii ''...'')),
                 msg_timestamp = now (replyStamp c)\<rparr>]
       \<and> length (filter (\<lambda>m. msg_role m = Mehu)
            (messages (snd (handleSendText_resumed c (snd (handleSendText u s))))))
           = length (filter (\<lambda>m. msg_role m = Mehu) (messages s)) + 1"
proof -
  let ?tx = "case completion c of Inl err \<Rightarrow> fallback | Inr reply \<Rightarrow> or_else reply (ascii ''...'')"
  let ?um = "addMessage (userStamp u) User (inputText s) (messages s)"
  note b = handleSendText_offline [OF assms, of u]
  note r = handleSendText_resumed_eq
  have c1: "fst (handleSendText u s) = Awaiting"
    by (simp add: b)
  have c2: "requests (effects (snd (handleSendText u s))) = requests (effects s) @ [inputText s]"
    by (simp add: b requests_append)
  have c3: "fst (handleSendText_resumed c s') = Returned"
    by (simp add: r)
  have c4: "effects (snd (handleSendText_resumed c s')) = effects s'"
    by (simp add: r)
  have c5: "messages (snd (handleSendText_resumed c s')) = addMessage (replyStamp c) Mehu ?tx (messages s')"
    by (simp add: r)
  have c6: "length (filter (\<lambda>m. msg_role m = Mehu) (messages (snd (handleSendText_resumed c s'))))
           = (if coalesces (messages s') Mehu ?tx
              then length (filter (\<lambda>m. msg_role m = Mehu) (messages s'))
              else length (filter (\<lambda>m. msg_role m = Mehu) (messages s')) + 1)"
    by (simp only: c5 addMessage_count) simp
  have ur: "msg_role (last ?um) \<noteq> Mehu"
    using addMessage_last [of "userStamp u" User "inputText s" "messages s"] by simp
  have c7: "messages (snd (handleSendText_resumed c (snd (handleSendText u s))))
      = ?um @ [\<lparr>msg_id = randomId (replyStamp c), msg_role = Mehu, msg_text = ?tx,
                 msg_timestamp = now (replyStamp c)\<rparr>]"
    by (simp add: r b addMessage_other_role [OF ur])
  have "length (filter (\<lambda>m. msg_role m = Mehu) ?um) = length (filter (\<lambda>m. msg_role m = Mehu) (messages s))"
    by (simp only: addMessage_count) simp
  then have c8: "length (filter (\<lambda>m. msg_role m = Mehu)
            (messages (snd (handleSendText_resumed c (snd (handleSendText u s))))))
           = length (filter (\<lambda>m. msg_role m = Mehu) (messages s)) + 1"
    by (simp only: c7) simp
  from c1 c2 c3 c4 c5 c6 c7 c8 show ?thesis by blast
qed

text \<open>The input \<open>hi \<close> typed into the fresh component and sent, the request settling at
  once: with a failure, and with the reply \<open>yo\<close>.\<close>

theorem offline_send_settles_once_witness:
  "\<not> list_all isWhiteSpace (inputText (typed (ascii ''hi '')))
   \<and> \<not> (isLive (typed (ascii ''hi '')) \<and> sessionRef (typed (ascii ''hi '')) \<noteq> None)
   \<and> fst (handleSendText (submits 1000) (typed (ascii ''hi ''))) = Awaiting
   \<and> requests (effects (snd (handleSendText (submits 1000) (typed (ascii ''hi '')))))
       = [ascii ''hi '']
   \<and> messages (snd (handleSendText_resumed (answers 2000 (Inl RequestError))
        (snd (handleSendText (submits 1000) (typed (ascii ''hi ''))))))
       = [\<lparr>msg_id = ascii ''0.25'', msg_role = User, msg_text = ascii ''hi '', msg_timestamp = 1000\<rparr>,
          \<lparr>msg_id = ascii ''0.75'', msg_role = Mehu, msg_text = fallback, msg_timestamp = 2000\<rparr>]
   \<and> messages (snd (handleSendText_resumed (answers 2000 (Inr (Some (ascii ''yo''))))
        (snd (handleSendText (submits 1000) (typed (ascii ''hi ''))))))
       = [\<lparr>msg_id = ascii ''0.25'', msg_role = User, msg_text = ascii ''hi '', msg_timestamp = 1000\<rparr>,
          \<lparr>msg_id = ascii ''0.75'', msg_role = Mehu, msg_text = ascii ''yo'', msg_timestamp = 2000\<rparr>]"
proof -
  let ?s = "typed (ascii ''hi '')"
  have h1: "\<not> (\<forall>u\<in>set (inputText ?s). isWhiteSpace u)"
    by (simp add: typed_def ascii_def isWhiteSpace_def)
  have h2: "\<not> (isLive ?s \<and> sessionRef ?s \<noteq> None)"
    by (simp add: typed_def init_def)
  from h1 have h1': "\<not> list_all isWhiteSpace (inputText ?s)"
    by (simp add: list_all_iff)
  have e: "effects ?s = []" "messages ?s = []" "inputText ?s = ascii ''hi ''"
    by (simp_all add: typed_def init_def)
  have a: "userStamp (submits t) = \<lparr>randomId = ascii ''0.25'', now = t\<rparr>"
    "replyStamp (answers t c) = \<lparr>randomId = ascii ''0.75'', now = t\<rparr>"
    "completion (answers t c) = c" for t c
    by (simp_all add: answers_def submits_def)
  have u: "addMessage \<lparr>randomId = ascii ''0.25'', now = 1000\<rparr> User (ascii ''hi '') []
      = [\<lparr>msg_id = ascii ''0.25'', msg_role = User, msg_text = ascii ''hi '', msg_timestamp = 1000\<rparr>]"
    by (simp add: addMessage_def coalesces_def)
  have o: "or_else (Some (ascii ''yo'')) (ascii ''...'') = ascii ''yo''"
    by (simp add: or_else_def ascii_def)
  note T = offline_send_settles_once [OF h1 h2, of "submits 1000"]
  from T [of "answers 2000 (Inl RequestError)" ?s]
  have t1: "fst (handleSendText (submits 1000) ?s) = Awaiting"
    and t2: "requests (effects (snd (handleSendText (submits 1000) ?s))) = [ascii ''hi '']"
    and t3: "messages (snd (handleSendText_resumed (answers 2000 (Inl RequestError))
        (snd (handleSendText (submits 1000) ?s))))
       = [\<lparr>msg_id = ascii ''0.25'', msg_role = User, msg_text = ascii ''hi '', msg_timestamp = 1000\<rparr>,
          \<lparr>msg_id = ascii ''0.75'', msg_role = Mehu, msg_text = fallback, msg_timestamp = 2000\<rparr>]"
    by (simp_all add: e a u)
  from T [of "answers 2000 (Inr (Some (ascii ''yo'')))" ?s]
  have t4: "messages (snd (handleSendText_resumed (answers 2000 (Inr (Some (ascii ''yo''))))
        (snd (handleSendText (submits 1000) ?s))))
       = [\<lparr>msg_id = ascii ''0.25'', msg_role = User, msg_text = ascii ''hi '', msg_timestamp = 1000\<rparr>,
          \<lparr>msg_id = ascii ''0.75'', msg_role = Mehu, msg_text = ascii ''yo'', msg_timestamp = 2000\<rparr>]"
    by (simp add: e a u o)
  from h1' h2 t1 t2 t3 t4 show ?thesis by blast
qed

text \<open>
  C4, as first stated, fails when two sends overlap. \<open>hi\<close> is sent, then \<open>yo\<close> is typed
  and sent while the first request is under way; each send issues its request, and both
  requests fail. The first fallback is appended after the two user entries. The second
  fallback contains the text of that entry, so it is coalesced into it: the second send
  has added no assistant entry, and two sends have left one.
\<close>

theorem overlapping_sends_coalesce:
  "fst (handleSendText (submits 1000) (typed (ascii ''hi''))) = Awaiting
   \<and> fst (handleSendText (submits 1100)
        (onChange (ascii ''yo'') (snd (handleSendText (submits 1000) (typed (ascii ''hi'')))))) = Awaiting
   \<and> requests (effects two_sends) = [ascii ''hi'', ascii ''yo'']
   \<and> messages (snd (handleSendText_resumed (answers 2000 (Inl RequestError)) two_sends))
       = [\<lparr>msg_id = ascii ''0.25'', msg_role = User, msg_text = ascii ''hi'', msg_timestamp = 1000\<rparr>,
          \<lparr>msg_id = ascii ''0.25'', msg_role = User, msg_text = ascii ''yo'', msg_timestamp = 1100\<rparr>,
          \<lparr>msg_id = ascii ''0.75'', msg_role = Mehu, msg_text = fallback, msg_timestamp = 2000\<rparr>]
   \<and> messages (snd (handleSendText_resumed (answers 2100 (Inl RequestError))
        (snd (handleSendText_resumed (answers 2000 (Inl RequestError)) two_sends))))
       = [\<lparr>msg_id = ascii ''0.25'', msg_role = User, msg_text = ascii ''hi'', msg_timestamp = 1000\<rparr>,
          \<lparr>msg_id = ascii ''0.25'', msg_role = User, msg_text = ascii ''yo'', msg_timestamp = 1100\<rparr>,
          \<lparr>msg_id = ascii ''0.75'', msg_role = Mehu, msg_text = fallback, msg_timestamp = 2100\<rparr>]
   \<and> length (filter (\<lambda>m. msg_role m = Mehu)
        (messages (snd (handleSendText_resumed (answers 2100 (Inl RequestError))
          (snd (handleSendText_resumed (answers 2000 (Inl RequestError)) two_sends)))))) = 1"
proof -
  let ?hi = "\<lparr>msg_id = ascii ''0.25'', msg_role = User, msg_text = ascii ''hi'', msg_timestamp = 1000\<rparr>"
  let ?yo = "\<lparr>msg_id = ascii ''0.25'', msg_role = User, msg_text = ascii ''yo'', msg_timestamp = 1100\<rparr>"
  let ?fb = "\<lambda>t. \<lparr>msg_id = ascii ''0.75'', msg_role = Mehu, msg_text = fallback, msg_timestamp = t\<rparr>"
  let ?e1 = "[PreventDefault, GenerateContent (ascii ''hi'')]"
  let ?e2 = "[PreventDefault, GenerateContent (ascii ''hi''), PreventDefault, GenerateContent (ascii ''yo'')]"
  have nb: "\<not> (\<forall>u\<in>set (ascii ''hi''). isWhiteSpace u)" "\<not> (\<forall>u\<in>set (ascii ''yo''). isWhiteSpace u)"
    by (simp_all add: ascii_def isWhiteSpace_def)
  have ni: "\<not> str_includes (ascii ''yo'') (ascii ''hi'')"
    by (simp add: ascii_def)
  have st: "userStamp (submits t) = \<lparr>randomId = ascii ''0.25'', now = t\<rparr>"
    "replyStamp (answers t c) = \<lparr>randomId = ascii ''0.75'', now = t\<rparr>"
    "completion (answers t c) = c" for t c
    by (simp_all add: submits_def answers_def)
  have u1: "addMessage \<lparr>randomId = ascii ''0.25'', now = 1000\<rparr> User (ascii ''hi'') [] = [?hi]"
    by (simp add: addMessage_def coalesces_def)
  have u2: "addMessage \<lparr>randomId = ascii ''0.25'', now = 1100\<rparr> User (ascii ''yo'') [?hi] = [?hi, ?yo]"
    by (simp add: addMessage_def coalesces_def ni)
  have f1: "addMessage \<lparr>randomId = ascii ''0.75'', now = 2000\<rparr> Mehu fallback [?hi, ?yo]
      = [?hi, ?yo, ?fb 2000]"
    by (simp add: addMessage_def coalesces_def)
  have f2: "addMessage \<lparr>randomId = ascii ''0.75'', now = 2100\<rparr> Mehu fallback [?hi, ?yo, ?fb 2000]
      = [?hi, ?yo, ?fb 2100]"
    by (simp add: addMessage_def coalesces_def str_includes_sublist)
  let ?s0 = "typed (ascii ''hi'')"
  have s0: "inputText ?s0 = ascii ''hi''" "\<not> isLive ?s0" "messages ?s0 = []" "effects ?s0 = []"
    by (simp_all add: typed_def init_def)
  have b1: "handleSendText (submits 1000) ?s0
      = (Awaiting, ?s0\<lparr>effects := ?e1, inputText := [], messages := [?hi]\<rparr>)"
    using nb(1) by (simp add: handleSendText_offline s0 st u1)
  let ?s1 = "onChange (ascii ''yo'') (snd (handleSendText (submits 1000) ?s0))"
  have s1: "inputText ?s1 = ascii ''yo''" "\<not> isLive ?s1" "messages ?s1 = [?hi]" "effects ?s1 = ?e1"
    by (simp_all add: b1 onChange_def s0)
  have b2: "handleSendText (submits 1100) ?s1
      = (Awaiting, ?s1\<lparr>effects := ?e2, inputText := [], messages := [?hi, ?yo]\<rparr>)"
    using nb(2) by (simp add: handleSendText_offline s1 st u2)
  have ts: "messages two_sends = [?hi, ?yo]" "effects two_sends = ?e2"
    unfolding two_sends_def by (simp_all add: b2)
  let ?r1 = "snd (handleSendText_resumed (answers 2000 (Inl RequestError)) two_sends)"
  have r1: "messages ?r1 = [?hi, ?yo, ?fb 2000]"
    by (simp add: handleSendText_resumed_eq st ts f1)
  let ?r2 = "snd (handleSendText_resumed (answers 2100 (Inl RequestError)) ?r1)"
  have r2: "messages ?r2 = [?hi, ?yo, ?fb 2100]"
    by (simp add: handleSendText_resumed_eq [of _ ?r1] st r1 f2)
  have rq: "requests (effects two_sends) = [ascii ''hi'', ascii ''yo'']"
    by (simp add: ts)
  have a1: "fst (handleSendText (submits 1000) ?s0) = Awaiting"
    by (simp add: b1)
  have a2: "fst (handleSendText (submits 1100) ?s1) = Awaiting"
    by (simp add: b2)
  have n: "length (filter (\<lambda>m. msg_role m = Mehu) (messages ?r2)) = 1"
    by (simp add: r2)
  from a1 a2 rq r1 r2 n show ?thesis by blast
qed

lemma or_else_not_Nil: "d \<noteq> [] \<Longrightarrow> or_else v d \<noteq> []"
  by (simp add: or_else_def split: option.splits)

text \<open>
  C10. The request succeeds. On whatever state the component has when the reply arrives,
  the last entry of the transcript is afterwards the assistant's and its text is not
  empty; when the reply text is absent or empty, that text is \<open>...\<close>. When the input was
  not blank, no live session was active and nothing was handled between the send and the
  reply, the transcript is the one left by the user's append with exactly one entry
  added.
\<close>

theorem empty_reply_dots:
  assumes "completion c = Inr reply"
  shows "(reply = None \<or> reply = Some [] \<longrightarrow>
            msg_text (last (messages (snd (handleSendText_resumed c s')))) = ascii ''...'')
       \<and> msg_text (last (messages (snd (handleSendText_resumed c s')))) \<noteq> []
       \<and> msg_role (last (messages (snd (handleSendText_resumed c s')))) = Mehu
       \<and> (\<not> (\<forall>u\<in>set (inputText s). isWhiteSpace u) \<and> \<not> (isLive s \<and> sessionRef s \<noteq> None) \<longrightarrow>
            length (messages (snd (handleSendText_resumed c (snd (handleSendText u s)))))
            = length (addMessage (userStamp u) User (inputText s) (messages s)) + 1)"
proof -
  have d: "ascii ''...'' \<noteq> []" by (simp add: ascii_def)
  have m: "messages (snd (handleSendText_resumed c s'))
      = addMessage (replyStamp c) Mehu (or_else reply (ascii ''...'')) (messages s')" for s'
    by (simp add: handleSendText_resumed_eq assms)
  note l = addMessage_last [of "replyStamp c" Mehu "or_else reply (ascii ''...'')"]
  have c1: "reply = None \<or> reply = Some [] \<longrightarrow>
      msg_text (last (messages (snd (handleSendText_resumed c s')))) = ascii ''...''"
    by (auto simp: m addMessage_last or_else_def)
  have c2: "msg_text (last (messages (snd (handleSendText_resumed c s')))) \<noteq> []"
    using or_else_not_Nil [OF d, of reply] by (simp add: m l)
  have c3: "msg_role (last (messages (snd (handleSendText_resumed c s')))) = Mehu"
    by (simp add: m l)
  have c4: "length (messages (snd (handleSendText_resumed c (snd (handleSendText u s)))))
      = length (addMessage (userStamp u) User (inputText s) (messages s)) + 1"
    if nb: "\<not> (\<forall>u\<in>set (inputText s). isWhiteSpace u)" and nl: "\<not> (isLive s \<and> sessionRef s \<noteq> None)"
  proof -
    have ur: "msg_role (last (addMessage (userStamp u) User (inputText s) (messages s))) \<noteq> Mehu"
      using addMessage_last [of "userStamp u" User "inputText s" "messages s"] by simp
    show ?thesis
      by (simp add: m handleSendText_offline [OF nb nl] addMessage_other_role [OF ur])
  qed
  from c1 c2 c3 c4 show ?thesis by blast
qed

text \<open>A reply with the empty text, and a reply with no text, to the input \<open>hi \<close>.\<close>

theorem empty_reply_dots_witness:
  "\<not> list_all isWhiteSpace (inputText (typed (ascii ''hi '')))
   \<and> \<not> (isLive (typed (ascii ''hi '')) \<and> sessionRef (typed (ascii ''hi '')) \<noteq> None)
   \<and> completion (answers 2000 (Inr (Some []))) = Inr (Some [])
   \<and> msg_text (last (messages (snd (handleSendText_resumed (answers 2000 (Inr (Some [])))
        (snd (handleSendText (submits 1000) (typed (ascii ''hi ''))))))))
       = [0x2E, 0x2E, 0x2E]
   \<and> msg_text (last (messages (snd (handleSendText_resumed (answers 2000 (Inr None))
        (snd (handleSendText (submits 1000) (typed (ascii ''hi ''))))))))
       = [0x2E, 0x2E, 0x2E]
   \<and> length (messages (snd (handleSendText_resumed (answers 2000 (Inr None))
        (snd (handleSendText (submits 1000) (typed (ascii ''hi ''))))))) = 2"
proof -
  let ?s = "typed (ascii ''hi '')"
  let ?b = "snd (handleSendText (submits 1000) ?s)"
  have h1: "\<not> (\<forall>u\<in>set (inputText ?s). isWhiteSpace u)"
    by (simp add: typed_def ascii_def isWhiteSpace_def)
  have h2: "\<not> (isLive ?s \<and> sessionRef ?s \<noteq> None)"
    by (simp add: typed_def init_def)
  from h1 have h1': "\<not> list_all isWhiteSpace (inputText ?s)"
    by (simp add: list_all_iff)
  have c: "completion (answers t c) = c" for t c
    by (simp add: answers_def)
  have d: "ascii ''...'' = [0x2E, 0x2E, 0x2E]"
    by (simp add: ascii_def)
  have u: "length (addMessage (userStamp (submits 1000)) User (inputText ?s) (messages ?s)) = 1"
    by (simp add: addMessage_def coalesces_def typed_def init_def)
  from empty_reply_dots [OF c, of "Some []" 2000 ?b ?s "submits 1000"]
  have t1: "msg_text (last (messages (snd (handleSendText_resumed (answers 2000 (Inr (Some []))) ?b))))
      = [0x2E, 0x2E, 0x2E]"
    by (simp add: d)
  from empty_reply_dots [OF c, of None 2000 ?b ?s "submits 1000"] h1 h2
  have t2: "msg_text (last (messages (snd (handleSendText_resumed (answers 2000 (Inr None)) ?b))))
      = [0x2E, 0x2E, 0x2E]"
    and t3: "length (messages (snd (handleSendText_resumed (answers 2000 (Inr None)) ?b))) = 2"
    by (simp_all add: d u)
  from h1' h2 c t1 t2 t3 show ?thesis by blast
qed

end
